theory Spec2Isabelle
  imports Complex_Main
begin

section \<open>JavaScript values\<close>

text \<open>
  The handler of \<^verbatim>\<open>src/express/index.ts\<close> is dynamically typed: \<^verbatim>\<open>req.body\<close>, the
  request's fields and the values returned by the registered methods are arbitrary
  JavaScript values. They are modelled as data: the JSON values, \<^verbatim>\<open>undefined\<close>, and a
  promise in one of its three states (fulfilled with a value, rejected with a reason, or
  never settling). An object is the list of its own properties; reading a key takes the
  first entry of that name.

  A number is kept only as far as the handler looks at it: its truthiness and its
  identity. \<open>Finite q\<close> is a finite number (\<open>-0\<close> is not told apart from \<open>0\<close>; both
  are falsy).
\<close>

datatype jsnum = NaN | Infinity bool | Finite rat

datatype jsval =
    JUndefined
  | JNull
  | JBool bool
  | JNum jsnum
  | JStr string
  | JArr "jsval list"
  | JObj "(string \<times> jsval) list"
  | JFulfilled jsval
  | JRejected jsval
  | JPending

text \<open>What a \<^verbatim>\<open>throw\<close> carries: a \<^verbatim>\<open>TypeError\<close> raised by the language itself,
  or a value thrown by a registered method (or the reason of a rejected promise).\<close>

datatype jserror = TypeError | Thrown jsval

abbreviation num :: "nat \<Rightarrow> jsval" where
  "num n \<equiv> JNum (Finite (of_nat n))"

text \<open>\<^verbatim>\<open>!v\<close> is \<open>\<not> truthy v\<close>: the falsy values are \<^verbatim>\<open>undefined\<close>, \<^verbatim>\<open>null\<close>,
  \<^verbatim>\<open>false\<close>, \<^verbatim>\<open>0\<close>, \<^verbatim>\<open>NaN\<close> and the empty string.\<close>

fun truthy :: "jsval \<Rightarrow> bool" where
  "truthy JUndefined = False"
| "truthy JNull = False"
| "truthy (JBool b) = b"
| "truthy (JNum NaN) = False"
| "truthy (JNum (Infinity s)) = True"
| "truthy (JNum (Finite q)) = (q \<noteq> 0)"
| "truthy (JStr s) = (s \<noteq> [])"
| "truthy (JArr xs) = True"
| "truthy (JObj kvs) = True"
| "truthy (JFulfilled v) = True"
| "truthy (JRejected e) = True"
| "truthy JPending = True"

text \<open>
  \<^verbatim>\<open>v[k]\<close> and \<^verbatim>\<open>v.k\<close>, for the four keys the handler reads off data
  (\<^verbatim>\<open>jsonrpc\<close>, \<^verbatim>\<open>method\<close>, \<^verbatim>\<open>params\<close>, \<^verbatim>\<open>statusCode\<close>). Reading a property of
  \<^verbatim>\<open>undefined\<close> or \<^verbatim>\<open>null\<close> throws a \<^verbatim>\<open>TypeError\<close>. Every other primitive is
  boxed and the read succeeds; none of the four keys is defined on a built-in
  prototype, so only an own property of an object yields anything but \<^verbatim>\<open>undefined\<close>.
\<close>

fun get_prop :: "jsval \<Rightarrow> string \<Rightarrow> jserror + jsval" where
  "get_prop JUndefined k = Inl TypeError"
| "get_prop JNull k = Inl TypeError"
| "get_prop (JObj kvs) k = Inr (case map_of kvs k of None \<Rightarrow> JUndefined | Some v \<Rightarrow> v)"
| "get_prop v k = Inr JUndefined"

text \<open>\<^verbatim>\<open>s.split(sep)\<close> for a one-character separator: the pieces between the
  separators, so a string with \<open>n\<close> separators has \<open>n + 1\<close> pieces and the empty
  string has the one piece \<^verbatim>\<open>""\<close>. The result is never empty, so the last branch is
  never taken.\<close>

fun js_split :: "char \<Rightarrow> string \<Rightarrow> string list" where
  "js_split sep [] = [[]]"
| "js_split sep (c # cs) =
     (if c = sep then [] # js_split sep cs
      else (case js_split sep cs of
              piece # pieces \<Rightarrow> (c # piece) # pieces
            | [] \<Rightarrow> [[c]]))"

text \<open>\<^verbatim>\<open>req.body.method.split('.')\<close> (line 47) on a truthy \<^verbatim>\<open>method\<close>: only a
  string has a \<^verbatim>\<open>split\<close> method; on any other value \<^verbatim>\<open>.split\<close> is
  \<^verbatim>\<open>undefined\<close> (or, for an object with such a key, JSON data) and calling it throws.\<close>

fun split_method :: "jsval \<Rightarrow> jserror + string list" where
  "split_method (JStr s) = Inr (js_split (CHR ''.'') s)"
| "split_method v = Inl TypeError"

text \<open>The spread \<^verbatim>\<open>...(v)\<close> of line 76: an array yields its elements, a string its
  characters, and any other value is not iterable.\<close>

fun spread :: "jsval \<Rightarrow> jserror + jsval list" where
  "spread (JArr xs) = Inr xs"
| "spread (JStr s) = Inr (map (\<lambda>c. JStr [c]) s)"
| "spread v = Inl TypeError"

text \<open>\<^verbatim>\<open>await v\<close>: a promise gives its value, throws its reason or never resumes;
  any other value is passed through.\<close>

datatype awaited = Value jsval | Rejection jserror | Forever

fun await :: "jsval \<Rightarrow> awaited" where
  "await (JFulfilled v) = Value v"
| "await (JRejected e) = Rejection (Thrown e)"
| "await JPending = Forever"
| "await v = Value v"

section \<open>Registered classes and instances\<close>

text \<open>
  A call of a method either returns a value or throws. An instance is what property
  lookup on it gives (own and inherited properties alike): nothing, a data value, or a
  function. A class has its \<^verbatim>\<open>name\<close> and its constructor called with no arguments,
  which yields the instance or throws.
\<close>

datatype completion = Return jsval | Throw jserror

datatype member = Field jsval | Method "jsval list \<Rightarrow> completion"

type_synonym js_instance = "string \<Rightarrow> member option"

record AnyClass =
  name :: string
  construct :: "jserror + js_instance"

text \<open>The truthiness of a property that is there (\<^verbatim>\<open>!instance[method]\<close> of line
  68): a function is truthy.\<close>

fun member_truthy :: "member \<Rightarrow> bool" where
  "member_truthy (Field v) = truthy v"
| "member_truthy (Method f) = True"

text \<open>Lines 30 to 34: the map from class names to instances, filled in the order of the
  list, a later class of the same name replacing the earlier one. A constructor that
  throws ends the loop and \<^verbatim>\<open>createExpressRouter\<close> with it.\<close>

fun register :: "AnyClass list \<Rightarrow> (string \<rightharpoonup> js_instance) \<Rightarrow> jserror + (string \<rightharpoonup> js_instance)" where
  "register [] instances = Inr instances"
| "register (c # cs) instances =
     (case construct c of
        Inl e \<Rightarrow> Inl e
      | Inr i \<Rightarrow> register cs (instances(name c \<mapsto> i)))"

section \<open>The handler\<close>

text \<open>
  What a run of the handler does is the sequence of its calls on \<^verbatim>\<open>res\<close> and on the
  registered instances, with how the \<^verbatim>\<open>async\<close> function ends: its promise resolves,
  rejects with the error that escaped, or never settles. \<^verbatim>\<open>res\<close> records the calls;
  \<^verbatim>\<open>status\<close>, \<^verbatim>\<open>setHeader\<close> and \<^verbatim>\<open>json\<close> do not throw.
\<close>

datatype event =
    Invoke string string "jsval list"
  | ResStatus jsval
  | ResSetHeader string string
  | ResJson jsval

datatype settled = Resolved | Rejected jserror | NeverSettles

type_synonym run = "event list \<times> settled"

definition error_body :: "string \<Rightarrow> jsval" where
  "error_body msg = JObj [(''error'', JStr msg)]"

definition result_body :: "jsval \<Rightarrow> jsval" where
  "result_body response =
     JObj [(''jsonrpc'', JStr ''2.0''), (''result'', response), (''id'', JNull)]"

text \<open>\<^verbatim>\<open>res.status(code).json(payload)\<close>.\<close>

definition respond :: "nat \<Rightarrow> jsval \<Rightarrow> event list" where
  "respond code payload = [ResStatus (num code), ResJson payload]"

text \<open>The body of the \<^verbatim>\<open>try\<close> (lines 76 to 92): it completes, throws, or is
  suspended for ever at the \<^verbatim>\<open>await\<close>.\<close>

datatype attempt = Completed | Raised jserror | Suspended

definition try_block :: "string \<Rightarrow> string \<Rightarrow> member \<Rightarrow> jsval \<Rightarrow> event list \<times> attempt" where
  "try_block className method m body =
     (case get_prop body ''params'' of
        Inl e \<Rightarrow> ([], Raised e)
      | Inr params \<Rightarrow>
          (case spread (if truthy params then params else JArr []) of
             Inl e \<Rightarrow> ([], Raised e)
           | Inr args \<Rightarrow>
               (case m of
                  Field v \<Rightarrow> ([], Raised TypeError)
                | Method f \<Rightarrow>
                    (case f args of
                       Throw e \<Rightarrow> ([Invoke className method args], Raised e)
                     | Return v \<Rightarrow>
                         (case await v of
                            Forever \<Rightarrow> ([Invoke className method args], Suspended)
                          | Rejection e \<Rightarrow> ([Invoke className method args], Raised e)
                          | Value response \<Rightarrow>
                              (case get_prop response ''statusCode'' of
                                 Inl e \<Rightarrow> ([Invoke className method args], Raised e)
                               | Inr statusCode \<Rightarrow>
                                   ([Invoke className method args,
                                     ResStatus (if \<not> truthy statusCode then num 200 else statusCode),
                                     ResSetHeader ''Content-Type'' ''application/json'']
                                    @ respond 200 (result_body response),
                                    Completed)))))))"

text \<open>Lines 75 to 97: the \<^verbatim>\<open>try\<close> with its \<^verbatim>\<open>catch\<close>.\<close>

definition invoke :: "string \<Rightarrow> string \<Rightarrow> member \<Rightarrow> jsval \<Rightarrow> run" where
  "invoke className method m body =
     (case try_block className method m body of
        (evs, Completed) \<Rightarrow> (evs, Resolved)
      | (evs, Raised error) \<Rightarrow> (evs @ respond 500 (error_body ''Internal server error''), Resolved)
      | (evs, Suspended) \<Rightarrow> (evs, NeverSettles))"

text \<open>Lines 58 to 97: the two lookups and the call, for the class name and the method
  name of lines 56 and 57. \<^verbatim>\<open>new c()\<close> is an object, so \<^verbatim>\<open>!instance\<close> holds only
  when the map has no entry; a property that is missing reads as \<^verbatim>\<open>undefined\<close>,
  which is falsy.\<close>

definition dispatch :: "(string \<rightharpoonup> js_instance) \<Rightarrow> string \<Rightarrow> string \<Rightarrow> jsval \<Rightarrow> run" where
  "dispatch instances className method body =
     (case instances className of
        None \<Rightarrow> (respond 404 (error_body (''Class '' @ className @ '' not found.'')), Resolved)
      | Some instance \<Rightarrow>
          (case instance method of
             None \<Rightarrow> (respond 404 (error_body (''Method '' @ method @ '' not found'')), Resolved)
           | Some m \<Rightarrow>
               (if \<not> member_truthy m
                then (respond 404 (error_body (''Method '' @ method @ '' not found'')), Resolved)
                else invoke className method m body)))"

text \<open>The condition of line 38,
  \<^verbatim>\<open>!req.body || (req.body && req.body["jsonrpc"] === "2.0")\<close>.\<close>

definition eligible :: "jsval \<Rightarrow> bool" where
  "eligible body \<longleftrightarrow>
     \<not> truthy body \<or> (truthy body \<and> get_prop body ''jsonrpc'' = Inr (JStr ''2.0''))"

text \<open>Lines 36 to 99: the function \<^verbatim>\<open>createExpressRouter\<close> returns, over the map of
  instances it closes over. Only \<^verbatim>\<open>req.body\<close> is read of the request.\<close>

definition handler :: "(string \<rightharpoonup> js_instance) \<Rightarrow> jsval \<Rightarrow> run" where
  "handler instances body =
     (if eligible body
      then
        (case get_prop body ''method'' of
           Inl e \<Rightarrow> ([], Rejected e)
         | Inr m \<Rightarrow>
             (if \<not> truthy m
              then (respond 400 (error_body ''Request invalid. Missing 'method' property from body.''),
                    Resolved)
              else
                (case split_method m of
                   Inl e \<Rightarrow> ([], Rejected e)
                 | Inr methodComponents \<Rightarrow>
                     (if length methodComponents < 2
                      then (respond 400 (error_body
                              ''Request invalid. Incorrect 'method' property format. It should be <classname.methodname>.''),
                            Resolved)
                      else dispatch instances (hd methodComponents) (last methodComponents) body))))
      else ([], Resolved))"

definition createExpressRouter :: "AnyClass list \<Rightarrow> jserror + (jsval \<Rightarrow> run)" where
  "createExpressRouter classes =
     (case register classes Map.empty of
        Inl e \<Rightarrow> Inl e
      | Inr instances \<Rightarrow> Inr (handler instances))"

section \<open>An example registry\<close>

text \<open>
  The service of the specification's scenario, \<^verbatim>\<open>sayHello(name)\<close> returning
  \<^verbatim>\<open>"Hello, " + name\<close>, with four more members: a method that returns nothing, one
  that throws, one whose promise rejects, and a data field. \<open>sayHello\<close> is used below
  on a string argument and on no argument only; its last equation stands for every
  other argument list without saying how JavaScript prints the argument.
  \<open>rpc m\<close> is the request body \<^verbatim>\<open>{jsonrpc: "2.0", method: m}\<close>.
\<close>

definition sayHello :: "jsval list \<Rightarrow> completion" where
  "sayHello args =
     (case args of
        JStr n # rest \<Rightarrow> Return (JStr (''Hello, '' @ n))
      | _ \<Rightarrow> Return (JStr ''Hello, undefined''))"

definition example_instance :: js_instance where
  "example_instance =
     [''sayHello'' \<mapsto> Method sayHello,
      ''reset'' \<mapsto> Method (\<lambda>args. Return JUndefined),
      ''fail'' \<mapsto> Method (\<lambda>args. Throw (Thrown (JStr ''boom''))),
      ''failLater'' \<mapsto> Method (\<lambda>args. Return (JRejected (JStr ''boom''))),
      ''version'' \<mapsto> Field (num 3)]"

definition HelloWorldService :: AnyClass where
  "HelloWorldService = \<lparr>name = ''HelloWorldService'', construct = Inr example_instance\<rparr>"

definition rpc :: "string \<Rightarrow> jsval" where
  "rpc m = JObj [(''jsonrpc'', JStr ''2.0''), (''method'', JStr m)]"

section \<open>Properties\<close>

subsection \<open>Splitting the selector\<close>

lemma js_split_nonempty: "js_split sep s \<noteq> []"
  by (induction s) (auto split: list.splits)

lemma length_js_split: "length (js_split sep s) = Suc (count_list s sep)"
  by (induction s) (auto split: list.splits)

lemma hd_js_split: "hd (js_split sep s) = takeWhile (\<lambda>c. c \<noteq> sep) s"
  by (induction s) (auto simp: js_split_nonempty split: list.splits)

lemma js_split_no_sep: "sep \<notin> set s \<Longrightarrow> js_split sep s = [s]"
  by (induction s) auto

lemma js_split_append: "sep \<notin> set a \<Longrightarrow> js_split sep (a @ sep # b) = a # js_split sep b"
  by (induction a) auto

lemma last_js_split_sep: "last (js_split sep (a @ sep # b)) = last (js_split sep b)"
proof (induction a)
  case Nil
  show ?case by (simp add: js_split_nonempty)
next
  case (Cons c a)
  have "2 \<le> length (js_split sep (a @ sep # b))"
    by (simp add: length_js_split)
  then obtain p q qs where "js_split sep (a @ sep # b) = p # q # qs"
    by (cases "js_split sep (a @ sep # b)" rule: remdups_adj.cases) auto
  with Cons show ?case by (auto simp: js_split_nonempty)
qed

lemma last_js_split_append: "sep \<notin> set b \<Longrightarrow> last (js_split sep (a @ sep # b)) = b"
  by (simp add: last_js_split_sep js_split_no_sep)

lemma last_js_split: "last (js_split sep s) = rev (takeWhile (\<lambda>c. c \<noteq> sep) (rev s))"
proof (cases "sep \<in> set s")
  case False
  then have whole: "takeWhile (\<lambda>c. c \<noteq> sep) (rev s) = rev s"
    by (intro takeWhile_eq_all_conv [THEN iffD2]) auto
  from False have one: "js_split sep s = [s]"
    by (rule js_split_no_sep)
  show ?thesis unfolding whole one by simp
next
  case True
  then obtain a b where s: "s = a @ sep # b" and b: "sep \<notin> set b"
    by (auto dest: split_list_last)
  from b have "takeWhile (\<lambda>c. c \<noteq> sep) (rev b @ sep # rev a) = rev b"
    by (subst takeWhile_append2) auto
  with s b show ?thesis by (simp add: last_js_split_append)
qed

subsection \<open>The stages of the handler\<close>

lemma handler_dispatch:
  assumes "eligible body"
    and "get_prop body ''method'' = Inr (JStr s)"
    and "2 \<le> length (js_split (CHR ''.'') s)"
  shows "handler instances body =
    dispatch instances (hd (js_split (CHR ''.'') s)) (last (js_split (CHR ''.'') s)) body"
proof -
  from assms(3) have "s \<noteq> []" by (cases s) auto
  with assms show ?thesis
    by (simp add: handler_def eligible_def)
qed

lemma register_dom:
  "register classes instances = Inr m \<Longrightarrow> dom m = dom instances \<union> name ` set classes"
  by (induction classes arbitrary: instances) (auto split: sum.splits)

lemma register_lookup:
  "register classes instances = Inr m \<Longrightarrow> m A = Some i \<Longrightarrow>
     instances A = Some i \<or> (\<exists>c \<in> set classes. name c = A \<and> construct c = Inr i)"
proof (induction classes arbitrary: instances)
  case Nil
  then show ?case by simp
next
  case (Cons c cs)
  from Cons.prems(1) obtain x where x: "construct c = Inr x"
    and r: "register cs (instances(name c \<mapsto> x)) = Inr m"
    by (auto split: sum.splits)
  from Cons.IH [OF r Cons.prems(2)] x show ?case
    by (auto split: if_splits)
qed

lemma createExpressRouter_handler:
  assumes "createExpressRouter classes = Inr h"
  obtains instances where "register classes Map.empty = Inr instances"
    and "h = handler instances" and "dom instances = name ` set classes"
proof -
  from assms obtain instances where r: "register classes Map.empty = Inr instances"
    and h: "h = handler instances"
    by (auto simp: createExpressRouter_def split: sum.splits)
  from register_dom [OF r] have "dom instances = name ` set classes" by simp
  with r h that show thesis by blast
qed

lemma invoke_value:
  assumes "get_prop body ''params'' = Inr params"
    and "spread (if truthy params then params else JArr []) = Inr args"
    and "f args = Return v"
    and "await v = Value r"
  shows "invoke className method (Method f) body =
    (case get_prop r ''statusCode'' of
       Inl e \<Rightarrow> (Invoke className method args # respond 500 (error_body ''Internal server error''), Resolved)
     | Inr statusCode \<Rightarrow>
         ([Invoke className method args,
           ResStatus (if \<not> truthy statusCode then num 200 else statusCode),
           ResSetHeader ''Content-Type'' ''application/json'']
          @ respond 200 (result_body r), Resolved))"
  using assms by (simp add: invoke_def try_block_def split: sum.splits)

lemma invoke_raised:
  assumes "get_prop body ''params'' = Inr params"
    and "spread (if truthy params then params else JArr []) = Inr args"
    and "f args = Throw e \<or> (\<exists>v. f args = Return v \<and> await v = Rejection e)"
  shows "invoke className method (Method f) body =
    (Invoke className method args # respond 500 (error_body ''Internal server error''), Resolved)"
  using assms by (auto simp: invoke_def try_block_def)

lemma dispatch_method:
  assumes "instances className = Some instance"
    and "instance method = Some (Method f)"
  shows "dispatch instances className method body = invoke className method (Method f) body"
  using assms by (simp add: dispatch_def)

lemma js_split_selector:
  assumes "CHR ''.'' \<notin> set A" and "CHR ''.'' \<notin> set b"
  shows "js_split (CHR ''.'') (A @ ''.'' @ b) = [A, b]"
  using assms by (simp add: js_split_append js_split_no_sep)

lemma truthy_get_prop: "truthy v \<Longrightarrow> \<exists>w. get_prop v k = Inr w"
  by (cases v) simp_all

lemma handler_nullish_body:
  "body = JUndefined \<or> body = JNull \<Longrightarrow> handler instances body = ([], Rejected TypeError)"
  by (auto simp: handler_def eligible_def)

lemma try_block_params_only:
  "get_prop body' ''params'' = get_prop body ''params'' \<Longrightarrow>
     try_block className method m body' = try_block className method m body"
  by (simp add: try_block_def)

lemma dispatch_params_only:
  assumes "get_prop body' ''params'' = get_prop body ''params''"
  shows "dispatch instances className method body' = dispatch instances className method body"
proof -
  have "invoke className method m body' = invoke className method m body" for m
    by (simp add: invoke_def try_block_params_only [OF assms])
  then show ?thesis
    by (simp add: dispatch_def split: option.splits)
qed

lemma dispatch_unknown_class:
  "instances className = None \<Longrightarrow>
     dispatch instances className method body =
       (respond 404 (error_body (''Class '' @ className @ '' not found.'')), Resolved)"
  by (simp add: dispatch_def)

subsection \<open>The claims\<close>

text \<open>
  C1, as amended. Let the dispatcher be built from the classes \<open>classes\<close>, let \<open>A\<close> be
  registered with instance \<open>inst\<close> and \<open>b\<close> be a function of that instance (\<open>A\<close> and
  \<open>b\<close> without a dot), and let an eligible request have the method field \<^verbatim>\<open>"A.b"\<close>.
  If the call of \<open>b\<close> with the request's params spread as arguments (none when params is
  missing or falsy) returns and its value, once awaited, is a value \<open>r\<close> other than
  \<^verbatim>\<open>undefined\<close> and \<^verbatim>\<open>null\<close>, then the handler calls the method once, sets the
  status (to \<open>r.statusCode\<close> when that is truthy, else to 200), sets the content type,
  sets the status to 200 and sends \<^verbatim>\<open>{jsonrpc: "2.0", result: r, id: null}\<close>, and returns.
\<close>

theorem success_envelope:
  assumes "createExpressRouter classes = Inr h"
    and "register classes Map.empty = Inr instances"
    and "instances A = Some inst"
    and "inst b = Some (Method f)"
    and "CHR ''.'' \<notin> set A" and "CHR ''.'' \<notin> set b"
    and "eligible body"
    and "get_prop body ''method'' = Inr (JStr (A @ ''.'' @ b))"
    and "get_prop body ''params'' = Inr params"
    and "spread (if truthy params then params else JArr []) = Inr args"
    and "f args = Return v"
    and "await v = Value r"
    and "r \<noteq> JUndefined" and "r \<noteq> JNull"
  shows "\<exists>statusCode. get_prop r ''statusCode'' = Inr statusCode \<and>
    h body =
      ([Invoke A b args,
        ResStatus (if \<not> truthy statusCode then num 200 else statusCode),
        ResSetHeader ''Content-Type'' ''application/json'',
        ResStatus (num 200),
        ResJson (JObj [(''jsonrpc'', JStr ''2.0''), (''result'', r), (''id'', JNull)])],
       Resolved)"
proof -
  from assms(1,2) have h: "h = handler instances"
    by (simp add: createExpressRouter_def)
  have split: "js_split (CHR ''.'') (A @ CHR ''.'' # b) = [A, b]"
    using js_split_selector [OF assms(5,6)] by simp
  have "handler instances body = dispatch instances A b body"
    using handler_dispatch [OF assms(7,8), of instances] by (simp add: split)
  also have "\<dots> = invoke A b (Method f) body"
    using assms(3,4) by (rule dispatch_method)
  finally have run: "h body = invoke A b (Method f) body"
    by (simp add: h)
  from assms(13,14) obtain statusCode where sc: "get_prop r ''statusCode'' = Inr statusCode"
    by (cases r) auto
  have "invoke A b (Method f) body =
    (case get_prop r ''statusCode'' of
       Inl e \<Rightarrow> (Invoke A b args # respond 500 (error_body ''Internal server error''), Resolved)
     | Inr statusCode \<Rightarrow>
         ([Invoke A b args,
           ResStatus (if \<not> truthy statusCode then num 200 else statusCode),
           ResSetHeader ''Content-Type'' ''application/json'']
          @ respond 200 (result_body r), Resolved))"
    using assms(9-12) by (rule invoke_value)
  with run sc show ?thesis
    by (simp add: respond_def result_body_def)
qed

theorem success_envelope_witness:
  "createExpressRouter [HelloWorldService] = Inr (handler [''HelloWorldService'' \<mapsto> example_instance]) \<and>
   handler [''HelloWorldService'' \<mapsto> example_instance]
     (JObj [(''jsonrpc'', JStr ''2.0''), (''method'', JStr ''HelloWorldService.sayHello''),
            (''params'', JArr [JStr ''World''])]) =
     ([Invoke ''HelloWorldService'' ''sayHello'' [JStr ''World''],
       ResStatus (num 200),
       ResSetHeader ''Content-Type'' ''application/json'',
       ResStatus (num 200),
       ResJson (JObj [(''jsonrpc'', JStr ''2.0''), (''result'', JStr ''Hello, World''), (''id'', JNull)])],
      Resolved)"
proof -
  let ?body = "JObj [(''jsonrpc'', JStr ''2.0''), (''method'', JStr ''HelloWorldService.sayHello''),
            (''params'', JArr [JStr ''World''])]"
  let ?instances = "[''HelloWorldService'' \<mapsto> example_instance]"
  have c: "createExpressRouter [HelloWorldService] = Inr (handler ?instances)"
    by (simp add: createExpressRouter_def HelloWorldService_def)
  have r: "register [HelloWorldService] Map.empty = Inr ?instances"
    by (simp add: HelloWorldService_def)
  have "\<exists>statusCode. get_prop (JStr ''Hello, World'') ''statusCode'' = Inr statusCode \<and>
    handler ?instances ?body =
      ([Invoke ''HelloWorldService'' ''sayHello'' [JStr ''World''],
        ResStatus (if \<not> truthy statusCode then num 200 else statusCode),
        ResSetHeader ''Content-Type'' ''application/json'',
        ResStatus (num 200),
        ResJson (JObj [(''jsonrpc'', JStr ''2.0''), (''result'', JStr ''Hello, World''), (''id'', JNull)])],
       Resolved)"
    by (rule success_envelope [OF c r, where A = "''HelloWorldService''" and b = "''sayHello''"
          and inst = example_instance and f = sayHello and params = "JArr [JStr ''World'']"
          and v = "JStr ''Hello, World''"])
       (simp_all add: example_instance_def eligible_def sayHello_def)
  with c show ?thesis by simp
qed

theorem success_envelope_counterexample:
  "createExpressRouter [HelloWorldService] = Inr (handler [''HelloWorldService'' \<mapsto> example_instance]) \<and>
   handler [''HelloWorldService'' \<mapsto> example_instance] (rpc ''HelloWorldService.reset'') =
     ([Invoke ''HelloWorldService'' ''reset'' [],
       ResStatus (num 500),
       ResJson (JObj [(''error'', JStr ''Internal server error'')])], Resolved) \<and>
   handler [''HelloWorldService'' \<mapsto> example_instance] (rpc ''HelloWorldService.fail'') =
     ([Invoke ''HelloWorldService'' ''fail'' [],
       ResStatus (num 500),
       ResJson (JObj [(''error'', JStr ''Internal server error'')])], Resolved)"
  by (simp add: createExpressRouter_def HelloWorldService_def handler_def eligible_def rpc_def dispatch_def
      example_instance_def invoke_def try_block_def respond_def error_body_def)

text \<open>
  C2, as amended. For every eligible request whose body is neither \<^verbatim>\<open>undefined\<close> nor
  \<^verbatim>\<open>null\<close> and whose \<^verbatim>\<open>method\<close> field is missing (or has any other falsy value),
  the handler responds with status 400 and the body
  \<^verbatim>\<open>{error: "Request invalid. Missing 'method' property from body."}\<close>, and returns.
\<close>

theorem missing_method:
  assumes "eligible body"
    and "body \<noteq> JUndefined" and "body \<noteq> JNull"
    and "get_prop body ''method'' = Inr m"
    and "\<not> truthy m"
  shows "handler instances body =
    ([ResStatus (num 400),
      ResJson (JObj [(''error'', JStr ''Request invalid. Missing 'method' property from body.'')])],
     Resolved)"
  using assms by (simp add: handler_def eligible_def respond_def error_body_def)

theorem missing_method_witness:
  "handler Map.empty (JObj [(''jsonrpc'', JStr ''2.0''), (''params'', JArr [])]) =
    ([ResStatus (num 400),
      ResJson (JObj [(''error'', JStr ''Request invalid. Missing 'method' property from body.'')])],
     Resolved)"
  using missing_method [of "JObj [(''jsonrpc'', JStr ''2.0''), (''params'', JArr [])]" JUndefined Map.empty]
  by (simp add: eligible_def)

theorem missing_method_counterexample:
  "handler Map.empty (JObj [(''jsonrpc'', JStr ''1.0'')]) = ([], Resolved) \<and>
   handler Map.empty JUndefined = ([], Rejected TypeError)"
  by (simp add: handler_def eligible_def)

text \<open>
  C3. A request whose body is truthy and whose \<^verbatim>\<open>jsonrpc\<close> field is not the string
  \<^verbatim>\<open>"2.0"\<close> makes the handler do nothing: no call on \<^verbatim>\<open>res\<close> (no status, no header,
  no body), no call of a method, and the handler returns.
\<close>

theorem ineligible_no_response:
  assumes "truthy body"
    and "get_prop body ''jsonrpc'' \<noteq> Inr (JStr ''2.0'')"
  shows "handler instances body = ([], Resolved)"
  using assms by (simp add: handler_def eligible_def)

theorem ineligible_no_response_witness:
  "handler Map.empty (JObj [(''jsonrpc'', JStr ''1.0''), (''method'', JStr ''A.b'')]) = ([], Resolved)"
  using ineligible_no_response
    [of "JObj [(''jsonrpc'', JStr ''1.0''), (''method'', JStr ''A.b'')]" Map.empty]
  by simp

text \<open>
  C4, as amended. Every falsy body passes the eligibility check. When the body is
  \<^verbatim>\<open>undefined\<close> or \<^verbatim>\<open>null\<close>, reading its \<^verbatim>\<open>method\<close> property raises a
  \<^verbatim>\<open>TypeError\<close> that escapes the handler, and no call on \<^verbatim>\<open>res\<close> is made. For every
  other falsy body (\<^verbatim>\<open>false\<close>, \<^verbatim>\<open>0\<close>, \<^verbatim>\<open>NaN\<close>, the empty string) the read yields
  \<^verbatim>\<open>undefined\<close> and the handler responds with status 400 and the missing-method
  message.
\<close>

theorem falsy_body:
  assumes "\<not> truthy body"
  shows "eligible body \<and>
    handler instances body =
      (if body = JUndefined \<or> body = JNull then ([], Rejected TypeError)
       else ([ResStatus (num 400),
              ResJson (JObj [(''error'', JStr ''Request invalid. Missing 'method' property from body.'')])],
             Resolved))"
  using assms by (cases body) (simp_all add: handler_def eligible_def respond_def error_body_def)

theorem falsy_body_witness:
  "eligible JUndefined \<and> handler Map.empty JUndefined = ([], Rejected TypeError) \<and>
   eligible JNull \<and> handler Map.empty JNull = ([], Rejected TypeError)"
  using falsy_body [of JUndefined Map.empty] falsy_body [of JNull Map.empty]
  by simp

theorem falsy_body_counterexample:
  "\<not> truthy (JBool False) \<and>
   handler Map.empty (JBool False) =
     ([ResStatus (num 400),
       ResJson (JObj [(''error'', JStr ''Request invalid. Missing 'method' property from body.'')])],
      Resolved)"
  by (simp add: handler_def eligible_def respond_def error_body_def)

text \<open>
  C5. For an eligible request whose \<^verbatim>\<open>method\<close> string splits into at least two
  components, the first naming a registered instance and the last a function of it: if
  the call returns and its value, once awaited, is \<^verbatim>\<open>null\<close> or \<^verbatim>\<open>undefined\<close>, the
  handler responds with status 500 and the body \<^verbatim>\<open>{error: "Internal server error"}\<close>
  and no success envelope is sent: the read of \<^verbatim>\<open>statusCode\<close> throws inside the
  \<^verbatim>\<open>try\<close>.
\<close>

theorem nullish_result:
  assumes "eligible body"
    and "get_prop body ''method'' = Inr (JStr s)"
    and "js_split (CHR ''.'') s = methodComponents"
    and "2 \<le> length methodComponents"
    and "instances (hd methodComponents) = Some inst"
    and "inst (last methodComponents) = Some (Method f)"
    and "get_prop body ''params'' = Inr params"
    and "spread (if truthy params then params else JArr []) = Inr args"
    and "f args = Return v"
    and "await v = Value r"
    and "r = JNull \<or> r = JUndefined"
  shows "handler instances body =
    ([Invoke (hd methodComponents) (last methodComponents) args,
      ResStatus (num 500),
      ResJson (JObj [(''error'', JStr ''Internal server error'')])],
     Resolved)"
proof -
  have "handler instances body =
      dispatch instances (hd methodComponents) (last methodComponents) body"
    using handler_dispatch [OF assms(1,2), of instances] assms(3,4) by simp
  also have "\<dots> = invoke (hd methodComponents) (last methodComponents) (Method f) body"
    using assms(5,6) by (rule dispatch_method)
  also have "\<dots> =
    (case get_prop r ''statusCode'' of
       Inl e \<Rightarrow> (Invoke (hd methodComponents) (last methodComponents) args
                  # respond 500 (error_body ''Internal server error''), Resolved)
     | Inr statusCode \<Rightarrow>
         ([Invoke (hd methodComponents) (last methodComponents) args,
           ResStatus (if \<not> truthy statusCode then num 200 else statusCode),
           ResSetHeader ''Content-Type'' ''application/json'']
          @ respond 200 (result_body r), Resolved))"
    using assms(7-10) by (rule invoke_value)
  finally show ?thesis
    using assms(11) by (auto simp: respond_def error_body_def)
qed

theorem nullish_result_witness:
  "handler [''HelloWorldService'' \<mapsto> example_instance] (rpc ''HelloWorldService.reset'') =
    ([Invoke ''HelloWorldService'' ''reset'' [],
      ResStatus (num 500),
      ResJson (JObj [(''error'', JStr ''Internal server error'')])],
     Resolved)"
proof -
  have "handler [''HelloWorldService'' \<mapsto> example_instance] (rpc ''HelloWorldService.reset'') =
    ([Invoke (hd [''HelloWorldService'', ''reset'']) (last [''HelloWorldService'', ''reset'']) [],
      ResStatus (num 500),
      ResJson (JObj [(''error'', JStr ''Internal server error'')])],
     Resolved)"
    by (rule nullish_result [where s = "''HelloWorldService.reset''" and inst = example_instance
          and f = "\<lambda>args. Return JUndefined" and params = JUndefined and v = JUndefined
          and r = JUndefined])
       (simp_all add: eligible_def rpc_def example_instance_def)
  then show ?thesis by simp
qed

text \<open>
  C6. For an eligible request whose \<^verbatim>\<open>method\<close> string \<open>s\<close> has two or more dots, the
  handler goes on to the lookups and the call with the class name that is the part of
  \<open>s\<close> before its first dot and the method name that is the part after its last dot.
  What lies between does not matter: the request whose \<^verbatim>\<open>method\<close> is these two names
  joined by one dot, with the same params, has the same run.
\<close>

theorem multi_dot_selector:
  assumes "eligible body"
    and "get_prop body ''method'' = Inr (JStr s)"
    and "2 \<le> count_list s (CHR ''.'')"
    and "className = takeWhile (\<lambda>c. c \<noteq> CHR ''.'') s"
    and "method = rev (takeWhile (\<lambda>c. c \<noteq> CHR ''.'') (rev s))"
  shows "handler instances body = dispatch instances className method body \<and>
    (\<forall>body'. eligible body' \<and> get_prop body' ''method'' = Inr (JStr (className @ ''.'' @ method)) \<and>
        get_prop body' ''params'' = get_prop body ''params'' \<longrightarrow>
      handler instances body' = handler instances body)"
proof -
  have run: "handler instances body = dispatch instances className method body"
    using handler_dispatch [OF assms(1,2), of instances] assms(3-5)
    by (simp add: length_js_split hd_js_split last_js_split)
  have A: "CHR ''.'' \<notin> set className"
    unfolding assms(4) by (auto dest: set_takeWhileD)
  have c: "CHR ''.'' \<notin> set method"
    unfolding assms(5) by (auto dest: set_takeWhileD)
  have split: "js_split (CHR ''.'') (className @ CHR ''.'' # method) = [className, method]"
    using js_split_selector [OF A c] by simp
  have "handler instances body' = handler instances body"
    if "eligible body'" and "get_prop body' ''method'' = Inr (JStr (className @ ''.'' @ method))"
      and "get_prop body' ''params'' = get_prop body ''params''" for body'
  proof -
    have "handler instances body' = dispatch instances className method body'"
      using handler_dispatch [OF that(1,2), of instances] by (simp add: split)
    also have "\<dots> = dispatch instances className method body"
      using that(3) by (rule dispatch_params_only)
    finally show ?thesis by (simp add: run)
  qed
  with run show ?thesis by blast
qed

theorem multi_dot_selector_witness:
  "handler [''HelloWorldService'' \<mapsto> example_instance] (rpc ''HelloWorldService.b.c.sayHello'') =
     ([Invoke ''HelloWorldService'' ''sayHello'' [],
       ResStatus (num 200),
       ResSetHeader ''Content-Type'' ''application/json'',
       ResStatus (num 200),
       ResJson (JObj [(''jsonrpc'', JStr ''2.0''), (''result'', JStr ''Hello, undefined''), (''id'', JNull)])],
      Resolved) \<and>
   handler [''HelloWorldService'' \<mapsto> example_instance] (rpc ''HelloWorldService.sayHello'') =
   handler [''HelloWorldService'' \<mapsto> example_instance] (rpc ''HelloWorldService.b.c.sayHello'')"
proof -
  let ?body = "rpc ''HelloWorldService.b.c.sayHello''"
  let ?instances = "[''HelloWorldService'' \<mapsto> example_instance]"
  have "handler ?instances ?body = dispatch ?instances ''HelloWorldService'' ''sayHello'' ?body \<and>
    (\<forall>body'. eligible body' \<and>
        get_prop body' ''method'' = Inr (JStr (''HelloWorldService'' @ ''.'' @ ''sayHello'')) \<and>
        get_prop body' ''params'' = get_prop ?body ''params'' \<longrightarrow>
      handler ?instances body' = handler ?instances ?body)"
    by (rule multi_dot_selector [where s = "''HelloWorldService.b.c.sayHello''"])
       (simp_all add: eligible_def rpc_def)
  then have run: "handler ?instances ?body = dispatch ?instances ''HelloWorldService'' ''sayHello'' ?body"
    and same: "eligible (rpc ''HelloWorldService.sayHello'') \<and>
        get_prop (rpc ''HelloWorldService.sayHello'') ''method'' =
          Inr (JStr (''HelloWorldService'' @ ''.'' @ ''sayHello'')) \<and>
        get_prop (rpc ''HelloWorldService.sayHello'') ''params'' = get_prop ?body ''params'' \<longrightarrow>
      handler ?instances (rpc ''HelloWorldService.sayHello'') = handler ?instances ?body"
    by blast+
  from same have "handler ?instances (rpc ''HelloWorldService.sayHello'') = handler ?instances ?body"
    by (simp add: eligible_def rpc_def)
  moreover have "dispatch ?instances ''HelloWorldService'' ''sayHello'' ?body =
     ([Invoke ''HelloWorldService'' ''sayHello'' [],
       ResStatus (num 200),
       ResSetHeader ''Content-Type'' ''application/json'',
       ResStatus (num 200),
       ResJson (JObj [(''jsonrpc'', JStr ''2.0''), (''result'', JStr ''Hello, undefined''), (''id'', JNull)])],
      Resolved)"
    by (simp add: dispatch_def example_instance_def invoke_def try_block_def rpc_def sayHello_def
        respond_def result_body_def)
  ultimately show ?thesis using run by simp
qed

text \<open>
  C7. For an eligible request whose \<^verbatim>\<open>method\<close> string splits into at least two
  components, the first naming a registered instance and the last a function of it: if
  the call throws, or returns a promise that rejects, the handler responds with status
  500 and the body \<^verbatim>\<open>{error: "Internal server error"}\<close>, which does not mention the
  error \<open>e\<close>, and the handler returns: nothing escapes it.
\<close>

theorem invocation_failure:
  assumes "eligible body"
    and "get_prop body ''method'' = Inr (JStr s)"
    and "js_split (CHR ''.'') s = methodComponents"
    and "2 \<le> length methodComponents"
    and "instances (hd methodComponents) = Some inst"
    and "inst (last methodComponents) = Some (Method f)"
    and "get_prop body ''params'' = Inr params"
    and "spread (if truthy params then params else JArr []) = Inr args"
    and "f args = Throw e \<or> (\<exists>v. f args = Return v \<and> await v = Rejection e)"
  shows "handler instances body =
    ([Invoke (hd methodComponents) (last methodComponents) args,
      ResStatus (num 500),
      ResJson (JObj [(''error'', JStr ''Internal server error'')])],
     Resolved)"
proof -
  have "handler instances body =
      dispatch instances (hd methodComponents) (last methodComponents) body"
    using handler_dispatch [OF assms(1,2), of instances] assms(3,4) by simp
  also have "\<dots> = invoke (hd methodComponents) (last methodComponents) (Method f) body"
    using assms(5,6) by (rule dispatch_method)
  also have "\<dots> = (Invoke (hd methodComponents) (last methodComponents) args
      # respond 500 (error_body ''Internal server error''), Resolved)"
    using assms(7-9) by (rule invoke_raised)
  finally show ?thesis
    by (simp add: respond_def error_body_def)
qed

theorem invocation_failure_witness:
  "handler [''HelloWorldService'' \<mapsto> example_instance] (rpc ''HelloWorldService.fail'') =
    ([Invoke ''HelloWorldService'' ''fail'' [],
      ResStatus (num 500),
      ResJson (JObj [(''error'', JStr ''Internal server error'')])],
     Resolved) \<and>
   handler [''HelloWorldService'' \<mapsto> example_instance] (rpc ''HelloWorldService.failLater'') =
    ([Invoke ''HelloWorldService'' ''failLater'' [],
      ResStatus (num 500),
      ResJson (JObj [(''error'', JStr ''Internal server error'')])],
     Resolved)"
proof -
  have "handler [''HelloWorldService'' \<mapsto> example_instance] (rpc ''HelloWorldService.fail'') =
    ([Invoke (hd [''HelloWorldService'', ''fail'']) (last [''HelloWorldService'', ''fail'']) [],
      ResStatus (num 500),
      ResJson (JObj [(''error'', JStr ''Internal server error'')])],
     Resolved)"
    by (rule invocation_failure [where s = "''HelloWorldService.fail''" and inst = example_instance
          and f = "\<lambda>args. Throw (Thrown (JStr ''boom''))" and params = JUndefined
          and e = "Thrown (JStr ''boom'')"])
       (simp_all add: eligible_def rpc_def example_instance_def)
  moreover
  have "handler [''HelloWorldService'' \<mapsto> example_instance] (rpc ''HelloWorldService.failLater'') =
    ([Invoke (hd [''HelloWorldService'', ''failLater'']) (last [''HelloWorldService'', ''failLater'']) [],
      ResStatus (num 500),
      ResJson (JObj [(''error'', JStr ''Internal server error'')])],
     Resolved)"
    by (rule invocation_failure [where s = "''HelloWorldService.failLater''" and inst = example_instance
          and f = "\<lambda>args. Return (JRejected (JStr ''boom''))" and params = JUndefined
          and e = "Thrown (JStr ''boom'')"])
       (simp_all add: eligible_def rpc_def example_instance_def)
  ultimately show ?thesis by simp
qed

text \<open>
  C8, as amended. For every eligible request whose \<^verbatim>\<open>method\<close> string splits on the dot
  into at least two components, the first of which is not the name of a registered class,
  the handler responds with status 404 and the body \<^verbatim>\<open>{error: "Class <name> not found."}\<close>;
  in particular, the dispatcher built from the empty class list answers every such
  request in this way.
\<close>

theorem unknown_class:
  assumes "createExpressRouter classes = Inr h"
    and "eligible body"
    and "get_prop body ''method'' = Inr (JStr s)"
    and "js_split (CHR ''.'') s = methodComponents"
    and "2 \<le> length methodComponents"
    and "hd methodComponents \<notin> name ` set classes"
  shows "h body =
      ([ResStatus (num 404),
        ResJson (JObj [(''error'', JStr (''Class '' @ hd methodComponents @ '' not found.''))])],
       Resolved) \<and>
    createExpressRouter [] = Inr (handler Map.empty) \<and>
    handler Map.empty body =
      ([ResStatus (num 404),
        ResJson (JObj [(''error'', JStr (''Class '' @ hd methodComponents @ '' not found.''))])],
       Resolved)"
proof -
  from assms(1) obtain instances where h: "h = handler instances"
    and "dom instances = name ` set classes"
    by (rule createExpressRouter_handler)
  with assms(6) have absent: "instances (hd methodComponents) = None"
    by auto
  have "handler i body = dispatch i (hd methodComponents) (last methodComponents) body" for i
    using handler_dispatch [OF assms(2,3), of i] assms(4,5) by simp
  then have "h body = dispatch instances (hd methodComponents) (last methodComponents) body"
    and "handler Map.empty body =
      dispatch Map.empty (hd methodComponents) (last methodComponents) body"
    by (simp_all add: h)
  then show ?thesis
    by (simp add: dispatch_unknown_class absent respond_def error_body_def createExpressRouter_def)
qed

theorem unknown_class_witness:
  "handler [''HelloWorldService'' \<mapsto> example_instance] (rpc ''ProductService.list'') =
      ([ResStatus (num 404),
        ResJson (JObj [(''error'', JStr ''Class ProductService not found.'')])],
       Resolved) \<and>
   createExpressRouter [] = Inr (handler Map.empty) \<and>
   handler Map.empty (rpc ''ProductService.list'') =
      ([ResStatus (num 404),
        ResJson (JObj [(''error'', JStr ''Class ProductService not found.'')])],
       Resolved)"
proof -
  have "createExpressRouter [HelloWorldService] =
      Inr (handler [''HelloWorldService'' \<mapsto> example_instance])"
    by (simp add: createExpressRouter_def HelloWorldService_def)
  then have "handler [''HelloWorldService'' \<mapsto> example_instance] (rpc ''ProductService.list'') =
      ([ResStatus (num 404),
        ResJson (JObj [(''error'', JStr (''Class '' @ hd [''ProductService'', ''list''] @ '' not found.''))])],
       Resolved) \<and>
    createExpressRouter [] = Inr (handler Map.empty) \<and>
    handler Map.empty (rpc ''ProductService.list'') =
      ([ResStatus (num 404),
        ResJson (JObj [(''error'', JStr (''Class '' @ hd [''ProductService'', ''list''] @ '' not found.''))])],
       Resolved)"
    by (rule unknown_class [where s = "''ProductService.list''"])
       (simp_all add: eligible_def rpc_def HelloWorldService_def)
  then show ?thesis by simp
qed

theorem unknown_class_counterexample:
  "createExpressRouter [] = Inr (handler Map.empty) \<and>
   handler Map.empty (rpc ''foo'') =
     ([ResStatus (num 400),
       ResJson (JObj [(''error'', JStr
         ''Request invalid. Incorrect 'method' property format. It should be <classname.methodname>.'')])],
      Resolved)"
  by (simp add: createExpressRouter_def handler_def eligible_def rpc_def respond_def error_body_def)

text \<open>
  C9. For an eligible request whose \<^verbatim>\<open>method\<close> string splits into at least two
  components, the first naming a registered instance that has no property of the name
  that is the last component, the handler responds with status 404 and the body
  \<^verbatim>\<open>{error: "Method <name> not found"}\<close>; no method is called (the run has no
  \<open>Invoke\<close>).
\<close>

theorem unknown_method:
  assumes "eligible body"
    and "get_prop body ''method'' = Inr (JStr s)"
    and "js_split (CHR ''.'') s = methodComponents"
    and "2 \<le> length methodComponents"
    and "instances (hd methodComponents) = Some inst"
    and "inst (last methodComponents) = None"
  shows "handler instances body =
    ([ResStatus (num 404),
      ResJson (JObj [(''error'', JStr (''Method '' @ last methodComponents @ '' not found''))])],
     Resolved)"
proof -
  have "handler instances body =
      dispatch instances (hd methodComponents) (last methodComponents) body"
    using handler_dispatch [OF assms(1,2), of instances] assms(3,4) by simp
  with assms(5,6) show ?thesis
    by (simp add: dispatch_def respond_def error_body_def)
qed

theorem unknown_method_witness:
  "handler [''HelloWorldService'' \<mapsto> example_instance] (rpc ''HelloWorldService.sayGoodbye'') =
    ([ResStatus (num 404),
      ResJson (JObj [(''error'', JStr ''Method sayGoodbye not found'')])],
     Resolved)"
proof -
  have "handler [''HelloWorldService'' \<mapsto> example_instance] (rpc ''HelloWorldService.sayGoodbye'') =
    ([ResStatus (num 404),
      ResJson (JObj [(''error'', JStr (''Method '' @ last [''HelloWorldService'', ''sayGoodbye''] @ '' not found''))])],
     Resolved)"
    by (rule unknown_method [where s = "''HelloWorldService.sayGoodbye''" and inst = example_instance])
       (simp_all add: eligible_def rpc_def example_instance_def)
  then show ?thesis by simp
qed

text \<open>
  C10, as amended. For every eligible request whose \<^verbatim>\<open>method\<close> field is a string that
  is not empty and splits on the dot into fewer than two components (it has no dot), the
  handler responds with status 400 and the body \<^verbatim>\<open>{error: "Request invalid. Incorrect
  'method' property format. It should be <classname.methodname>."}\<close>, whatever the registry
  holds: no class and no method is looked up.
\<close>

theorem malformed_selector:
  assumes "eligible body"
    and "get_prop body ''method'' = Inr (JStr s)"
    and "s \<noteq> []"
    and "length (js_split (CHR ''.'') s) < 2"
  shows "handler instances body =
    ([ResStatus (num 400),
      ResJson (JObj [(''error'', JStr
        ''Request invalid. Incorrect 'method' property format. It should be <classname.methodname>.'')])],
     Resolved)"
  using assms by (simp add: handler_def eligible_def respond_def error_body_def)

theorem malformed_selector_witness:
  "handler [''HelloWorldService'' \<mapsto> example_instance] (rpc ''foo'') =
    ([ResStatus (num 400),
      ResJson (JObj [(''error'', JStr
        ''Request invalid. Incorrect 'method' property format. It should be <classname.methodname>.'')])],
     Resolved)"
  using malformed_selector [of "rpc ''foo''" "''foo''" "[''HelloWorldService'' \<mapsto> example_instance]"]
  by (simp add: eligible_def rpc_def)

theorem malformed_selector_counterexample:
  "get_prop (rpc '''') ''method'' = Inr (JStr '''') \<and>
   length (js_split (CHR ''.'') '''') = 1 \<and>
   handler Map.empty (rpc '''') =
     ([ResStatus (num 400),
       ResJson (JObj [(''error'', JStr ''Request invalid. Missing 'method' property from body.'')])],
      Resolved)"
  by (simp add: handler_def eligible_def rpc_def respond_def error_body_def)

end
